theory Spec2Isabelle
  imports Complex_Main "HOL-Library.Product_Lexorder"
begin

section \<open>Data model of \<open>simulate_strategies.py\<close>\<close>

text \<open>
  The \<open>Date\<close> column holds daily timestamps. A date is the triple (year, month, day);
  the lexicographic order on triples is the chronological order, and \<open>.dt.year\<close>,
  \<open>.dt.month\<close>, \<open>.dt.day\<close> are the three projections.
\<close>

type_synonym date = "nat \<times> nat \<times> nat"

definition dt_year :: "date \<Rightarrow> nat" where
  "dt_year d = fst d"

definition dt_month :: "date \<Rightarrow> nat" where
  "dt_month d = fst (snd d)"

definition dt_day :: "date \<Rightarrow> nat" where
  "dt_day d = snd (snd d)"

text \<open>
  The \<open>float64\<close> columns. Finite values are real numbers (rounding and overflow are not
  modelled, nor is the sign of zero); the three special values are kept, because numpy
  arithmetic produces them instead of raising.
\<close>

datatype float64 = Fin real | PInf | NInf | NaN

text \<open>numpy division of two finite values: a zero divisor gives an infinity or nan.\<close>

definition np_div :: "real \<Rightarrow> real \<Rightarrow> float64" where
  "np_div a b =
     (if b \<noteq> 0 then Fin (a / b)
      else if 0 < a then PInf
      else if a < 0 then NInf
      else NaN)"

text \<open>numpy multiplication of a column value by a finite price.\<close>

fun np_mul :: "float64 \<Rightarrow> real \<Rightarrow> float64" where
  "np_mul (Fin a) b = Fin (a * b)"
| "np_mul PInf b = (if 0 < b then PInf else if b < 0 then NInf else NaN)"
| "np_mul NInf b = (if 0 < b then NInf else if b < 0 then PInf else NaN)"
| "np_mul NaN b = NaN"

text \<open>The comparison \<open><=\<close> of two float64 values; every comparison with nan is false.\<close>

fun le64 :: "float64 \<Rightarrow> float64 \<Rightarrow> bool" where
  "le64 NaN y = False"
| "le64 x NaN = False"
| "le64 NInf y = True"
| "le64 x PInf = True"
| "le64 (Fin a) (Fin b) = (a \<le> b)"
| "le64 PInf y = False"
| "le64 x NInf = False"

text \<open>The exceptions the simulation code can raise.\<close>

datatype py_error = KeyError | ZeroDivisionError | ValueError

text \<open>
  Rows of the two data frames: a price row is (\<open>Date\<close>, \<open>adj_close\<close>), an equity row is
  (\<open>Date\<close>, \<open>ticker\<close>, \<open>strategy\<close>, \<open>units\<close>, \<open>invested_amount\<close>, \<open>portfolio_value\<close>).
\<close>

record dated =
  Date :: date

record price_row = dated +
  adj_close :: real

record equity_row = dated +
  ticker :: string
  strategy :: string
  units :: float64
  invested_amount :: float64
  portfolio_value :: float64

record StrategyResult =
  df_equity :: "equity_row list"
  name :: string
  result_ticker :: string

definition INITIAL_CAPITAL :: real where
  "INITIAL_CAPITAL = 10000"

definition MONTHLY_CONTRIBUTION :: real where
  "MONTHLY_CONTRIBUTION = 300"

definition INVESTMENT_DAY :: nat where
  "INVESTMENT_DAY = 5"

section \<open>\<open>get_price_series\<close>\<close>

text \<open>
  The table \<open>prices\<close> of the database is a list of (ticker, price row) pairs. The query
  keeps the rows of one ticker and orders them by date.
\<close>

type_synonym prices_table = "(string \<times> price_row) list"

definition get_price_series :: "string \<Rightarrow> prices_table \<Rightarrow> price_row list" where
  "get_price_series tk conn = sort_key Date (map snd (filter (\<lambda>(t, r). t = tk) conn))"

section \<open>\<open>simulate_lump_sum\<close>\<close>

text \<open>
  \<open>df.loc[0, "adj_close"]\<close> raises \<open>KeyError\<close> on a frame without rows. The value read is a
  numpy float, so the division does not raise on a zero price.
\<close>

definition simulate_lump_sum :: "price_row list \<Rightarrow> string \<Rightarrow> py_error + StrategyResult" where
  "simulate_lump_sum prices tk =
     (case prices of
        [] \<Rightarrow> Inl KeyError
      | r0 # rest \<Rightarrow>
          (let first_price = adj_close r0;
               u = np_div INITIAL_CAPITAL first_price
           in Inr \<lparr>df_equity =
                     map (\<lambda>r. \<lparr>Date = Date r, ticker = tk, strategy = ''Lump Sum'',
                               units = u, invested_amount = Fin INITIAL_CAPITAL,
                               portfolio_value = np_mul u (adj_close r)\<rparr>) prices,
                   name = ''Lump Sum'', result_ticker = tk\<rparr>))"

section \<open>\<open>_get_monthly_investment_dates\<close>\<close>

definition year_month :: "date \<Rightarrow> nat \<times> nat" where
  "year_month d = (dt_year d, dt_month d)"

text \<open>\<open>groupby(["year", "month"])\<close> visits the distinct keys in ascending order.\<close>

definition group_keys :: "price_row list \<Rightarrow> (nat \<times> nat) list" where
  "group_keys prices = sort (remdups (map (\<lambda>r. year_month (Date r)) prices))"

definition group_of :: "price_row list \<Rightarrow> nat \<times> nat \<Rightarrow> price_row list" where
  "group_of prices k = filter (\<lambda>r. year_month (Date r) = k) prices"

definition date_min :: "date list \<Rightarrow> date" where
  "date_min ds = fold min (tl ds) (hd ds)"

definition date_max :: "date list \<Rightarrow> date" where
  "date_max ds = fold max (tl ds) (hd ds)"

text \<open>The body of the loop over the groups: the investment date of one month.\<close>

definition invest_date_of_group :: "price_row list \<Rightarrow> date" where
  "invest_date_of_group grp =
     (let g = sort_key Date grp;
          cand = filter (\<lambda>r. INVESTMENT_DAY \<le> dt_day (Date r)) g
      in if cand = [] then date_max (map Date g) else date_min (map Date cand))"

definition get_monthly_investment_dates :: "price_row list \<Rightarrow> date list" where
  "get_monthly_investment_dates prices =
     sort (map (\<lambda>k. invest_date_of_group (group_of prices k)) (group_keys prices))"

section \<open>\<open>simulate_dca\<close>\<close>

text \<open>
  The loop over \<open>df.iterrows()\<close>. The state is (\<open>total_units\<close>, \<open>total_invested\<close>) and the
  three lists the loop appends to. A row of a frame with columns of several types holds
  Python floats, so the division raises \<open>ZeroDivisionError\<close> on a zero price.
\<close>

fun dca_loop :: "date list \<Rightarrow> price_row list \<Rightarrow> real \<times> real
    \<Rightarrow> real list \<times> real list \<times> real list
    \<Rightarrow> py_error + (real list \<times> real list \<times> real list)" where
  "dca_loop invest_dates [] (total_units, total_invested) (units_list, invested_list, value_list) =
     Inr (units_list, invested_list, value_list)"
| "dca_loop invest_dates (row # rest) (total_units, total_invested)
       (units_list, invested_list, value_list) =
     (let current_date = Date row; price = adj_close row in
      if current_date \<in> set invest_dates then
        (if price = 0 then Inl ZeroDivisionError
         else
           (let buy_units = MONTHLY_CONTRIBUTION / price;
                total_units' = total_units + buy_units;
                total_invested' = total_invested + MONTHLY_CONTRIBUTION
            in dca_loop invest_dates rest (total_units', total_invested')
                 (units_list @ [total_units'], invested_list @ [total_invested'],
                  value_list @ [total_units' * price])))
      else dca_loop invest_dates rest (total_units, total_invested)
             (units_list @ [total_units], invested_list @ [total_invested],
              value_list @ [total_units * price]))"

definition dca_frame :: "price_row list \<Rightarrow> string \<Rightarrow> real list \<times> real list \<times> real list
    \<Rightarrow> equity_row list" where
  "dca_frame prices tk cols =
     map (\<lambda>(r, u, i, v). \<lparr>Date = Date r, ticker = tk, strategy = ''DCA'',
                          units = Fin u, invested_amount = Fin i, portfolio_value = Fin v\<rparr>)
       (zip prices (zip (fst cols) (zip (fst (snd cols)) (snd (snd cols)))))"

definition simulate_dca :: "price_row list \<Rightarrow> string \<Rightarrow> py_error + StrategyResult" where
  "simulate_dca prices tk =
     (let invest_dates = get_monthly_investment_dates prices in
      case dca_loop invest_dates prices (0, 0) ([], [], []) of
        Inl e \<Rightarrow> Inl e
      | Inr cols \<Rightarrow> Inr \<lparr>df_equity = dca_frame prices tk cols, name = ''DCA'', result_ticker = tk\<rparr>)"

section \<open>\<open>run_simulations\<close>\<close>

text \<open>
  The loop over the tickers has no exception handler: the first exception leaves the
  function. \<open>pd.concat\<close> raises \<open>ValueError\<close> on an empty list of frames. The database
  connection is the table it reads; the progress message printed for each ticker has no
  effect on the result and is left out.
\<close>

fun run_loop :: "prices_table \<Rightarrow> string list \<Rightarrow> equity_row list list
    \<Rightarrow> py_error + equity_row list list" where
  "run_loop conn [] all_results = Inr all_results"
| "run_loop conn (tk # rest) all_results =
     (let prices = get_price_series tk conn in
      case simulate_lump_sum prices tk of
        Inl e \<Rightarrow> Inl e
      | Inr lump \<Rightarrow>
          (case simulate_dca prices tk of
             Inl e \<Rightarrow> Inl e
           | Inr dca \<Rightarrow> run_loop conn rest (all_results @ [df_equity lump] @ [df_equity dca])))"

definition run_simulations :: "prices_table \<Rightarrow> string list \<Rightarrow> py_error + equity_row list" where
  "run_simulations conn tickers =
     (case run_loop conn tickers [] of
        Inl e \<Rightarrow> Inl e
      | Inr all_results \<Rightarrow> if all_results = [] then Inl ValueError else Inr (concat all_results))"

section \<open>Auxiliary definitions for the proofs\<close>

text \<open>
  The states (\<open>total_units\<close>, \<open>total_invested\<close>) after each row of the loop of
  \<open>simulate_dca\<close>, when no division raises; the condition under which one raises; and the
  equity row built from a price row and the state after it. They are related to
  \<open>dca_loop\<close> and \<open>simulate_dca\<close> by the lemmas below.
\<close>

fun dca_states :: "date list \<Rightarrow> price_row list \<Rightarrow> real \<times> real \<Rightarrow> (real \<times> real) list" where
  "dca_states ds [] st = []"
| "dca_states ds (row # rest) st =
     (let st' = (if Date row \<in> set ds
                 then (fst st + MONTHLY_CONTRIBUTION / adj_close row, snd st + MONTHLY_CONTRIBUTION)
                 else st)
      in st' # dca_states ds rest st')"

definition dca_fails :: "date list \<Rightarrow> price_row list \<Rightarrow> bool" where
  "dca_fails ds rows = (\<exists>r \<in> set rows. Date r \<in> set ds \<and> adj_close r = 0)"

definition dca_row :: "string \<Rightarrow> price_row \<Rightarrow> real \<times> real \<Rightarrow> equity_row" where
  "dca_row tk r s = \<lparr>Date = Date r, ticker = tk, strategy = ''DCA'', units = Fin (fst s),
     invested_amount = Fin (snd s), portfolio_value = Fin (fst s * adj_close r)\<rparr>"

text \<open>The equity row \<open>simulate_lump_sum\<close> builds from a price row and the unit count.\<close>

definition lump_row :: "string \<Rightarrow> float64 \<Rightarrow> price_row \<Rightarrow> equity_row" where
  "lump_row tk u r = \<lparr>Date = Date r, ticker = tk, strategy = ''Lump Sum'', units = u,
     invested_amount = Fin INITIAL_CAPITAL, portfolio_value = np_mul u (adj_close r)\<rparr>"

section \<open>Example inputs\<close>

text \<open>Two months of prices, two rows each.\<close>

definition two_months :: "price_row list" where
  "two_months =
     [\<lparr>Date = (2020, 1, 3), adj_close = 10\<rparr>, \<lparr>Date = (2020, 1, 20), adj_close = 12\<rparr>,
      \<lparr>Date = (2020, 2, 5), adj_close = 11\<rparr>, \<lparr>Date = (2020, 2, 25), adj_close = 13\<rparr>]"

text \<open>
  A month whose rows stop on day 3, before \<open>INVESTMENT_DAY\<close>, then a month with a row on
  day 5.
\<close>

definition short_month :: "price_row list" where
  "short_month =
     [\<lparr>Date = (2020, 1, 1), adj_close = 10\<rparr>, \<lparr>Date = (2020, 1, 2), adj_close = 10\<rparr>,
      \<lparr>Date = (2020, 1, 3), adj_close = 10\<rparr>, \<lparr>Date = (2020, 2, 3), adj_close = 10\<rparr>,
      \<lparr>Date = (2020, 2, 5), adj_close = 10\<rparr>, \<lparr>Date = (2020, 2, 6), adj_close = 10\<rparr>]"

text \<open>A negative price on the investment date of the second month.\<close>

definition negative_price :: "price_row list" where
  "negative_price =
     [\<lparr>Date = (2020, 1, 6), adj_close = 10\<rparr>, \<lparr>Date = (2020, 2, 5), adj_close = - 10\<rparr>]"

text \<open>Two rows with the same date.\<close>

definition repeated_date :: "price_row list" where
  "repeated_date =
     [\<lparr>Date = (2020, 1, 6), adj_close = 10\<rparr>, \<lparr>Date = (2020, 1, 6), adj_close = 10\<rparr>]"

text \<open>The frames \<open>simulate_dca\<close> returns on these inputs.\<close>

definition two_months_curve :: StrategyResult where
  "two_months_curve =
     \<lparr>df_equity =
       [\<lparr>Date = (2020, 1, 3), ticker = ''AAPL'', strategy = ''DCA'',
          units = Fin 0, invested_amount = Fin 0, portfolio_value = Fin 0\<rparr>,
        \<lparr>Date = (2020, 1, 20), ticker = ''AAPL'', strategy = ''DCA'',
          units = Fin 25, invested_amount = Fin 300, portfolio_value = Fin 300\<rparr>,
        \<lparr>Date = (2020, 2, 5), ticker = ''AAPL'', strategy = ''DCA'',
          units = Fin (575 / 11), invested_amount = Fin 600, portfolio_value = Fin 575\<rparr>,
        \<lparr>Date = (2020, 2, 25), ticker = ''AAPL'', strategy = ''DCA'',
          units = Fin (575 / 11), invested_amount = Fin 600, portfolio_value = Fin (7475 / 11)\<rparr>],
       name = ''DCA'', result_ticker = ''AAPL''\<rparr>"

definition negative_price_curve :: StrategyResult where
  "negative_price_curve =
     \<lparr>df_equity =
       [\<lparr>Date = (2020, 1, 6), ticker = ''AAPL'', strategy = ''DCA'',
          units = Fin 30, invested_amount = Fin 300, portfolio_value = Fin 300\<rparr>,
        \<lparr>Date = (2020, 2, 5), ticker = ''AAPL'', strategy = ''DCA'',
          units = Fin 0, invested_amount = Fin 600, portfolio_value = Fin 0\<rparr>],
       name = ''DCA'', result_ticker = ''AAPL''\<rparr>"

definition repeated_date_curve :: StrategyResult where
  "repeated_date_curve =
     \<lparr>df_equity =
       [\<lparr>Date = (2020, 1, 6), ticker = ''AAPL'', strategy = ''DCA'',
          units = Fin 30, invested_amount = Fin 300, portfolio_value = Fin 300\<rparr>,
        \<lparr>Date = (2020, 1, 6), ticker = ''AAPL'', strategy = ''DCA'',
          units = Fin 60, invested_amount = Fin 600, portfolio_value = Fin 600\<rparr>],
       name = ''DCA'', result_ticker = ''AAPL''\<rparr>"

text \<open>A negative first price, a zero first price, and dates in decreasing order.\<close>

definition negative_first :: "price_row list" where
  "negative_first =
     [\<lparr>Date = (2020, 1, 6), adj_close = - 10\<rparr>, \<lparr>Date = (2020, 1, 7), adj_close = 20\<rparr>]"

definition zero_first :: "price_row list" where
  "zero_first =
     [\<lparr>Date = (2020, 1, 6), adj_close = 0\<rparr>, \<lparr>Date = (2020, 1, 7), adj_close = 20\<rparr>]"

definition decreasing_dates :: "price_row list" where
  "decreasing_dates =
     [\<lparr>Date = (2020, 2, 5), adj_close = 10\<rparr>, \<lparr>Date = (2020, 1, 6), adj_close = 10\<rparr>]"

text \<open>The frame \<open>simulate_lump_sum\<close> returns on the negative first price.\<close>

definition negative_first_curve :: StrategyResult where
  "negative_first_curve =
     \<lparr>df_equity =
       [\<lparr>Date = (2020, 1, 6), ticker = ''AAPL'', strategy = ''Lump Sum'',
          units = Fin (- 1000), invested_amount = Fin 10000, portfolio_value = Fin 10000\<rparr>,
        \<lparr>Date = (2020, 1, 7), ticker = ''AAPL'', strategy = ''Lump Sum'',
          units = Fin (- 1000), invested_amount = Fin 10000, portfolio_value = Fin (- 20000)\<rparr>],
       name = ''Lump Sum'', result_ticker = ''AAPL''\<rparr>"

text \<open>
  A table holding the two rows of \<open>repeated_date\<close> for one ticker, and the frame
  \<open>run_simulations\<close> returns on it.
\<close>

definition repeated_table :: prices_table where
  "repeated_table =
     [(''AAPL'', \<lparr>Date = (2020, 1, 6), adj_close = 10\<rparr>),
      (''AAPL'', \<lparr>Date = (2020, 1, 6), adj_close = 10\<rparr>)]"

definition repeated_date_frame :: "equity_row list" where
  "repeated_date_frame =
     [\<lparr>Date = (2020, 1, 6), ticker = ''AAPL'', strategy = ''Lump Sum'',
        units = Fin 1000, invested_amount = Fin 10000, portfolio_value = Fin 10000\<rparr>,
      \<lparr>Date = (2020, 1, 6), ticker = ''AAPL'', strategy = ''Lump Sum'',
        units = Fin 1000, invested_amount = Fin 10000, portfolio_value = Fin 10000\<rparr>,
      \<lparr>Date = (2020, 1, 6), ticker = ''AAPL'', strategy = ''DCA'',
        units = Fin 30, invested_amount = Fin 300, portfolio_value = Fin 300\<rparr>,
      \<lparr>Date = (2020, 1, 6), ticker = ''AAPL'', strategy = ''DCA'',
        units = Fin 60, invested_amount = Fin 600, portfolio_value = Fin 600\<rparr>]"

text \<open>
  A table with one row, for the ticker MSFT and no other; the series of that ticker and the
  frame \<open>run_simulations\<close> returns for it.
\<close>

definition msft_prices :: "price_row list" where
  "msft_prices = [\<lparr>Date = (2020, 1, 6), adj_close = 10\<rparr>]"

definition msft_table :: prices_table where
  "msft_table = [(''MSFT'', \<lparr>Date = (2020, 1, 6), adj_close = 10\<rparr>)]"

definition msft_frame :: "equity_row list" where
  "msft_frame =
     [\<lparr>Date = (2020, 1, 6), ticker = ''MSFT'', strategy = ''Lump Sum'',
        units = Fin 1000, invested_amount = Fin 10000, portfolio_value = Fin 10000\<rparr>,
      \<lparr>Date = (2020, 1, 6), ticker = ''MSFT'', strategy = ''DCA'',
        units = Fin 30, invested_amount = Fin 300, portfolio_value = Fin 300\<rparr>]"



section \<open>The loop of \<open>simulate_dca\<close>\<close>

lemma length_dca_states [simp]: "length (dca_states ds rows st) = length rows"
  by (induction rows arbitrary: st) (simp_all add: Let_def)

lemma dca_loop_fails:
  "dca_fails ds rows \<Longrightarrow> dca_loop ds rows st acc = Inl ZeroDivisionError"
proof (induction rows arbitrary: st acc)
  case Nil
  then show ?case by (simp add: dca_fails_def)
next
  case (Cons row rest)
  obtain tu ti where st: "st = (tu, ti)" by (cases st)
  obtain ul il vl where acc: "acc = (ul, il, vl)" by (cases acc) auto
  show ?case
  proof (cases "Date row \<in> set ds \<and> adj_close row = 0")
    case True
    then show ?thesis by (simp add: st acc)
  next
    case False
    with Cons.prems have "dca_fails ds rest" by (auto simp: dca_fails_def)
    then show ?thesis using Cons.IH by (simp add: st acc Let_def)
  qed
qed

lemma dca_loop_returns:
  "\<not> dca_fails ds rows \<Longrightarrow>
   dca_loop ds rows st (ul, il, vl) =
     Inr (ul @ map fst (dca_states ds rows st),
          il @ map snd (dca_states ds rows st),
          vl @ map (\<lambda>(s, r). fst s * adj_close r) (zip (dca_states ds rows st) rows))"
proof (induction rows arbitrary: st ul il vl)
  case Nil
  then show ?case by (cases st) simp
next
  case (Cons row rest)
  obtain tu ti where st: "st = (tu, ti)" by (cases st)
  from Cons.prems have rest: "\<not> dca_fails ds rest"
    and nz: "Date row \<in> set ds \<Longrightarrow> adj_close row \<noteq> 0"
    by (auto simp: dca_fails_def)
  show ?case
  proof (cases "Date row \<in> set ds")
    case True
    then show ?thesis using nz Cons.IH [OF rest] by (simp add: st Let_def)
  next
    case False
    then show ?thesis using Cons.IH [OF rest] by (simp add: st Let_def)
  qed
qed

lemma dca_frame_states:
  "length sts = length rows \<Longrightarrow>
   dca_frame rows tk (map fst sts, map snd sts, map (\<lambda>(s, r). fst s * adj_close r) (zip sts rows)) =
     map (\<lambda>(r, s). dca_row tk r s) (zip rows sts)"
proof (induction rows arbitrary: sts)
  case Nil
  then show ?case by (simp add: dca_frame_def)
next
  case (Cons r rows)
  then obtain s sts' where "sts = s # sts'" by (cases sts) auto
  with Cons show ?case by (simp add: dca_frame_def dca_row_def)
qed

lemma simulate_dca_fails:
  "dca_fails (get_monthly_investment_dates prices) prices \<Longrightarrow>
   simulate_dca prices tk = Inl ZeroDivisionError"
  by (simp add: simulate_dca_def dca_loop_fails)

lemma simulate_dca_returns:
  "\<not> dca_fails (get_monthly_investment_dates prices) prices \<Longrightarrow>
   simulate_dca prices tk =
     Inr \<lparr>df_equity = map (\<lambda>(r, s). dca_row tk r s)
            (zip prices (dca_states (get_monthly_investment_dates prices) prices (0, 0))),
          name = ''DCA'', result_ticker = tk\<rparr>"
  using dca_frame_states [of "dca_states (get_monthly_investment_dates prices) prices (0, 0)" prices tk]
  by (simp add: simulate_dca_def dca_loop_returns)

lemma dca_states_nth:
  "i < length rows \<Longrightarrow>
   dca_states ds rows st ! i =
     (fst st + (\<Sum>r\<leftarrow>filter (\<lambda>r. Date r \<in> set ds) (take (Suc i) rows). MONTHLY_CONTRIBUTION / adj_close r),
      snd st + MONTHLY_CONTRIBUTION * real (length (filter (\<lambda>r. Date r \<in> set ds) (take (Suc i) rows))))"
proof (induction rows arbitrary: i st)
  case Nil
  then show ?case by simp
next
  case (Cons row rest)
  show ?case
  proof (cases i)
    case 0
    then show ?thesis by (simp add: Let_def)
  next
    case (Suc j)
    with Cons.prems have j: "j < length rest" by simp
    show ?thesis
      using Cons.IH [OF j] Suc by (simp add: Let_def algebra_simps)
  qed
qed

lemma filter_take_split:
  assumes "i \<le> j"
  shows "filter P (take j xs) = filter P (take i xs) @ filter P (take (j - i) (drop i xs))"
proof -
  from assms have "take j xs = take i xs @ take (j - i) (drop i xs)"
    using take_add [of i "j - i" xs] by simp
  then show ?thesis by simp
qed

lemma dca_states_invested_mono:
  assumes "i \<le> j" "j < length rows"
  shows "snd (dca_states ds rows st ! i) \<le> snd (dca_states ds rows st ! j)"
proof -
  from assms have i: "i < length rows" by simp
  from assms(1) have le: "Suc i \<le> Suc j" by simp
  have "length (filter (\<lambda>r. Date r \<in> set ds) (take (Suc i) rows))
      \<le> length (filter (\<lambda>r. Date r \<in> set ds) (take (Suc j) rows))"
    by (simp only: filter_take_split [OF le, of _ rows] length_append le_add1)
  then show ?thesis
    by (simp add: dca_states_nth [OF i] dca_states_nth [OF assms(2)] MONTHLY_CONTRIBUTION_def)
qed

lemma dca_states_units_mono:
  assumes "i \<le> j" "j < length rows"
    and pos: "\<forall>r \<in> set rows. Date r \<in> set ds \<longrightarrow> 0 < adj_close r"
  shows "fst (dca_states ds rows st ! i) \<le> fst (dca_states ds rows st ! j)"
proof -
  from assms have i: "i < length rows" by simp
  let ?P = "\<lambda>r. Date r \<in> set ds"
  let ?f = "\<lambda>r. MONTHLY_CONTRIBUTION / adj_close r"
  let ?more = "filter ?P (take (Suc j - Suc i) (drop (Suc i) rows))"
  have "\<forall>r \<in> set ?more. 0 \<le> ?f r"
  proof
    fix r assume r: "r \<in> set ?more"
    then have "r \<in> set rows" "?P r"
      by (auto dest: in_set_takeD in_set_dropD)
    with pos have "0 < adj_close r" by blast
    then show "0 \<le> ?f r" by (simp add: MONTHLY_CONTRIBUTION_def)
  qed
  then have "0 \<le> sum_list (map ?f ?more)" by (intro sum_list_nonneg) auto
  moreover from assms(1) have le: "Suc i \<le> Suc j" by simp
  have "filter ?P (take (Suc j) rows) = filter ?P (take (Suc i) rows) @ ?more"
    by (rule filter_take_split [OF le])
  ultimately show ?thesis
    by (simp add: dca_states_nth [OF i] dca_states_nth [OF assms(2)])
qed

lemma dca_states_unchanged:
  assumes "i < length rows" "Date (rows ! i) \<notin> set ds"
  shows "dca_states ds rows st ! i = (if i = 0 then st else dca_states ds rows st ! (i - 1))"
proof -
  have take: "take (Suc i) rows = take i rows @ [rows ! i]"
    using assms(1) by (simp add: take_Suc_conv_app_nth)
  show ?thesis
  proof (cases i)
    case 0
    with assms take show ?thesis by (simp add: dca_states_nth)
  next
    case (Suc k)
    with assms(1) have k: "k < length rows" by simp
    have "dca_states ds rows st ! i = dca_states ds rows st ! k"
      unfolding dca_states_nth [OF assms(1)] dca_states_nth [OF k] take
      using assms(2) Suc by simp
    with Suc show ?thesis by simp
  qed
qed


lemma simulate_dca_rows:
  assumes "simulate_dca prices tk = Inr res"
  shows "df_equity res = map (\<lambda>(r, s). dca_row tk r s)
      (zip prices (dca_states (get_monthly_investment_dates prices) prices (0, 0)))"
proof -
  from assms have "\<not> dca_fails (get_monthly_investment_dates prices) prices"
    using simulate_dca_fails [of prices tk] by auto
  from simulate_dca_returns [OF this, of tk] assms show ?thesis by auto
qed

lemma simulate_dca_nth:
  assumes "simulate_dca prices tk = Inr res" "i < length prices"
  shows "df_equity res ! i =
    dca_row tk (prices ! i) (dca_states (get_monthly_investment_dates prices) prices (0, 0) ! i)"
  using assms(2) by (simp add: simulate_dca_rows [OF assms(1)])

lemma simulate_dca_length:
  "simulate_dca prices tk = Inr res \<Longrightarrow> length (df_equity res) = length prices"
  by (simp add: simulate_dca_rows)

lemma simulate_dca_fails_iff:
  "simulate_dca prices tk = Inl ZeroDivisionError \<longleftrightarrow>
     dca_fails (get_monthly_investment_dates prices) prices"
proof (cases "dca_fails (get_monthly_investment_dates prices) prices")
  case True
  then show ?thesis by (simp add: simulate_dca_fails)
next
  case False
  then show ?thesis by (simp add: simulate_dca_returns)
qed

lemma simulate_dca_returns_iff:
  "(\<exists>res. simulate_dca prices tk = Inr res) \<longleftrightarrow>
     \<not> dca_fails (get_monthly_investment_dates prices) prices"
proof (cases "dca_fails (get_monthly_investment_dates prices) prices")
  case True
  then show ?thesis by (simp add: simulate_dca_fails)
next
  case False
  then show ?thesis by (simp add: simulate_dca_returns)
qed

section \<open>\<open>simulate_lump_sum\<close> in closed form\<close>

lemma simulate_lump_sum_empty: "simulate_lump_sum [] tk = Inl KeyError"
  by (simp add: simulate_lump_sum_def)

lemma simulate_lump_sum_returns:
  "prices \<noteq> [] \<Longrightarrow>
   simulate_lump_sum prices tk =
     Inr \<lparr>df_equity = map (lump_row tk (np_div INITIAL_CAPITAL (adj_close (hd prices)))) prices,
          name = ''Lump Sum'', result_ticker = tk\<rparr>"
  by (cases prices) (simp_all add: simulate_lump_sum_def Let_def lump_row_def)

section \<open>The investment date of each month\<close>

lemma date_min_Min: "ds \<noteq> [] \<Longrightarrow> date_min ds = Min (set ds)"
  by (cases ds) (simp_all add: date_min_def Min.set_eq_fold [symmetric])

lemma date_max_Max: "ds \<noteq> [] \<Longrightarrow> date_max ds = Max (set ds)"
  by (cases ds) (simp_all add: date_max_def Max.set_eq_fold [symmetric])

lemma invest_date_of_group_fallback:
  assumes "grp \<noteq> []" and "{d \<in> Date ` set grp. INVESTMENT_DAY \<le> dt_day d} = {}"
  shows "invest_date_of_group grp = Max (Date ` set grp)"
proof -
  let ?g = "sort_key Date grp"
  have "\<forall>r \<in> set grp. \<not> INVESTMENT_DAY \<le> dt_day (Date r)"
    using assms(2) by blast
  then have "filter (\<lambda>r. INVESTMENT_DAY \<le> dt_day (Date r)) ?g = []"
    by (simp add: filter_empty_conv)
  moreover have "map Date ?g \<noteq> []" using assms(1) by (cases grp) auto
  then have "date_max (map Date ?g) = Max (Date ` set grp)"
    by (simp add: date_max_Max)
  ultimately show ?thesis by (simp add: invest_date_of_group_def Let_def)
qed

lemma invest_date_of_group_target:
  assumes "{d \<in> Date ` set grp. INVESTMENT_DAY \<le> dt_day d} \<noteq> {}"
  shows "invest_date_of_group grp = Min {d \<in> Date ` set grp. INVESTMENT_DAY \<le> dt_day d}"
proof -
  let ?cand = "filter (\<lambda>r. INVESTMENT_DAY \<le> dt_day (Date r)) (sort_key Date grp)"
  have cand_set: "set (map Date ?cand) = {d \<in> Date ` set grp. INVESTMENT_DAY \<le> dt_day d}"
    by auto
  with assms have ne: "map Date ?cand \<noteq> []" by (metis set_empty)
  then have "?cand \<noteq> []" by simp
  moreover have "date_min (map Date ?cand) = Min {d \<in> Date ` set grp. INVESTMENT_DAY \<le> dt_day d}"
    using date_min_Min [OF ne] by (simp only: cand_set)
  ultimately show ?thesis by (simp add: invest_date_of_group_def Let_def)
qed

lemma invest_date_of_group_in:
  assumes "grp \<noteq> []"
  shows "invest_date_of_group grp \<in> Date ` set grp"
proof (cases "{d \<in> Date ` set grp. INVESTMENT_DAY \<le> dt_day d} = {}")
  case True
  have "finite (Date ` set grp)" "Date ` set grp \<noteq> {}" using assms by auto
  from Max_in [OF this] show ?thesis
    by (simp only: invest_date_of_group_fallback [OF assms True])
next
  case False
  have "finite {d \<in> Date ` set grp. INVESTMENT_DAY \<le> dt_day d}" by simp
  from Min_in [OF this False]
  have "Min {d \<in> Date ` set grp. INVESTMENT_DAY \<le> dt_day d} \<in> Date ` set grp" by blast
  then show ?thesis by (simp only: invest_date_of_group_target [OF False])
qed

lemma set_group_keys: "set (group_keys prices) = year_month ` Date ` set prices"
  by (auto simp: group_keys_def)

lemma group_keys_sorted_list: "group_keys prices = sorted_list_of_set (year_month ` Date ` set prices)"
proof -
  have "year_month ` Date ` set prices = set (map (\<lambda>r. year_month (Date r)) prices)" by auto
  then show ?thesis by (simp only: group_keys_def sorted_list_of_set_sort_remdups)
qed

lemma Date_group_of: "Date ` set (group_of prices k) = {d \<in> Date ` set prices. year_month d = k}"
  by (auto simp: group_of_def)

lemma group_of_nonempty: "k \<in> set (group_keys prices) \<Longrightarrow> group_of prices k \<noteq> []"
  by (auto simp: set_group_keys group_of_def filter_empty_conv)

lemma year_month_selected:
  assumes "k \<in> set (group_keys prices)"
  shows "year_month (invest_date_of_group (group_of prices k)) = k"
  using invest_date_of_group_in [OF group_of_nonempty [OF assms]]
  by (auto simp: Date_group_of)

lemma year_month_less: "year_month d < year_month e \<Longrightarrow> d < (e :: date)"
  by (cases d, cases e) (auto simp: year_month_def dt_year_def dt_month_def)

lemma selected_sorted:
  "sorted_wrt (<) (map (\<lambda>k. invest_date_of_group (group_of prices k)) (group_keys prices))"
proof -
  have keys: "sorted_wrt (<) (group_keys prices)"
    by (simp add: group_keys_def strict_sorted_iff)
  have "sorted_wrt (\<lambda>j k. invest_date_of_group (group_of prices j) <
      invest_date_of_group (group_of prices k)) (group_keys prices)"
  proof (rule sorted_wrt_mono_rel [OF _ keys])
    fix j k
    assume "j \<in> set (group_keys prices)" "k \<in> set (group_keys prices)" "j < k"
    then show "invest_date_of_group (group_of prices j) < invest_date_of_group (group_of prices k)"
      by (intro year_month_less) (simp add: year_month_selected)
  qed
  then show ?thesis by (simp add: sorted_wrt_map)
qed

lemma get_monthly_investment_dates_eq:
  "get_monthly_investment_dates prices =
     map (\<lambda>k. invest_date_of_group (group_of prices k)) (group_keys prices)"
  using selected_sorted [of prices]
  by (simp add: get_monthly_investment_dates_def strict_sorted_iff sorted_sort_id)

lemma scheduled_rows_count:
  assumes "distinct (map Date prices)"
  shows "length (filter (\<lambda>r. Date r \<in> set (get_monthly_investment_dates prices)) prices) =
    card (year_month ` Date ` set prices)"
proof -
  let ?sched = "get_monthly_investment_dates prices"
  have dist: "distinct ?sched"
    using selected_sorted [of prices]
    by (simp add: get_monthly_investment_dates_eq strict_sorted_iff)
  have sub: "set ?sched \<subseteq> set (map Date prices)"
  proof
    fix d assume "d \<in> set ?sched"
    then obtain k where k: "k \<in> set (group_keys prices)"
      and d: "d = invest_date_of_group (group_of prices k)"
      by (auto simp: get_monthly_investment_dates_eq)
    from invest_date_of_group_in [OF group_of_nonempty [OF k]] d
    show "d \<in> set (map Date prices)" by (auto simp: Date_group_of)
  qed
  have "length (filter (\<lambda>r. Date r \<in> set ?sched) prices) =
      length (filter (\<lambda>d. d \<in> set ?sched) (map Date prices))"
    by (simp add: filter_map comp_def)
  also have "\<dots> = card ({d. d \<in> set ?sched} \<inter> set (map Date prices))"
    by (rule distinct_length_filter [OF assms])
  also have "{d. d \<in> set ?sched} \<inter> set (map Date prices) = set ?sched"
    using sub by blast
  also have "card (set ?sched) = length ?sched" by (rule distinct_card [OF dist])
  also have "\<dots> = length (group_keys prices)"
    by (simp add: get_monthly_investment_dates_eq)
  also have "\<dots> = card (set (group_keys prices))"
  proof -
    have "distinct (group_keys prices)" by (simp add: group_keys_def)
    then show ?thesis by (simp only: distinct_card)
  qed
  finally show ?thesis by (simp only: set_group_keys)
qed

section \<open>The loop of \<open>run_simulations\<close>\<close>

lemma run_loop_failure:
  assumes "\<forall>s \<in> set pre. \<exists>lump dca.
      simulate_lump_sum (get_price_series s conn) s = Inr lump \<and>
      simulate_dca (get_price_series s conn) s = Inr dca"
    and "simulate_lump_sum (get_price_series t conn) t = Inl e \<or>
      (\<exists>lump. simulate_lump_sum (get_price_series t conn) t = Inr lump) \<and>
      simulate_dca (get_price_series t conn) t = Inl e"
  shows "run_loop conn (pre @ t # post) acc = Inl e"
  using assms(1)
proof (induction pre arbitrary: acc)
  case Nil
  from assms(2) show ?case by (auto simp: Let_def)
next
  case (Cons s pre)
  then obtain lump dca where
    "simulate_lump_sum (get_price_series s conn) s = Inr lump"
    "simulate_dca (get_price_series s conn) s = Inr dca"
    by auto
  moreover from Cons.prems have "\<forall>s \<in> set pre. \<exists>lump dca.
      simulate_lump_sum (get_price_series s conn) s = Inr lump \<and>
      simulate_dca (get_price_series s conn) s = Inr dca"
    by simp
  ultimately show ?case using Cons.IH by (simp add: Let_def)
qed

lemma run_loop_returns:
  "run_loop conn tickers acc = Inr frames \<Longrightarrow>
   (\<forall>s \<in> set tickers. \<exists>lump dca.
      simulate_lump_sum (get_price_series s conn) s = Inr lump \<and>
      simulate_dca (get_price_series s conn) s = Inr dca) \<and>
   frames = acc @ concat (map (\<lambda>s.
      [df_equity (projr (simulate_lump_sum (get_price_series s conn) s)),
       df_equity (projr (simulate_dca (get_price_series s conn) s))]) tickers)"
proof (induction tickers arbitrary: acc)
  case Nil
  then show ?case by simp
next
  case (Cons s rest)
  from Cons.prems obtain lump dca where
    l: "simulate_lump_sum (get_price_series s conn) s = Inr lump" and
    d: "simulate_dca (get_price_series s conn) s = Inr dca" and
    r: "run_loop conn rest (acc @ [df_equity lump] @ [df_equity dca]) = Inr frames"
    by (auto simp: Let_def split: sum.splits)
  from Cons.IH [OF r] l d show ?case by simp
qed

section \<open>Evaluation on the example inputs\<close>

lemmas selector_defs =
  get_monthly_investment_dates_def group_keys_def group_of_def invest_date_of_group_def
  year_month_def dt_year_def dt_month_def dt_day_def INVESTMENT_DAY_def date_min_def date_max_def

lemma two_months_dates: "get_monthly_investment_dates two_months = [(2020, 1, 20), (2020, 2, 5)]"
  by (simp add: two_months_def selector_defs)

lemma two_months_dca:
  "simulate_dca two_months ''AAPL'' =
     Inr \<lparr>df_equity =
       [\<lparr>Date = (2020, 1, 3), ticker = ''AAPL'', strategy = ''DCA'',
          units = Fin 0, invested_amount = Fin 0, portfolio_value = Fin 0\<rparr>,
        \<lparr>Date = (2020, 1, 20), ticker = ''AAPL'', strategy = ''DCA'',
          units = Fin 25, invested_amount = Fin 300, portfolio_value = Fin 300\<rparr>,
        \<lparr>Date = (2020, 2, 5), ticker = ''AAPL'', strategy = ''DCA'',
          units = Fin (575 / 11), invested_amount = Fin 600, portfolio_value = Fin 575\<rparr>,
        \<lparr>Date = (2020, 2, 25), ticker = ''AAPL'', strategy = ''DCA'',
          units = Fin (575 / 11), invested_amount = Fin 600, portfolio_value = Fin (7475 / 11)\<rparr>],
       name = ''DCA'', result_ticker = ''AAPL''\<rparr>"
  unfolding simulate_dca_def two_months_dates
  by (simp add: two_months_def dca_frame_def MONTHLY_CONTRIBUTION_def Let_def)

lemma short_month_dates: "get_monthly_investment_dates short_month = [(2020, 1, 3), (2020, 2, 5)]"
  by (simp add: short_month_def selector_defs)

lemma negative_price_dates:
  "get_monthly_investment_dates negative_price = [(2020, 1, 6), (2020, 2, 5)]"
  by (simp add: negative_price_def selector_defs)

lemma repeated_date_dates: "get_monthly_investment_dates repeated_date = [(2020, 1, 6)]"
  by (simp add: repeated_date_def selector_defs)

lemma negative_price_dca:
  "simulate_dca negative_price ''AAPL'' =
     Inr \<lparr>df_equity =
       [\<lparr>Date = (2020, 1, 6), ticker = ''AAPL'', strategy = ''DCA'',
          units = Fin 30, invested_amount = Fin 300, portfolio_value = Fin 300\<rparr>,
        \<lparr>Date = (2020, 2, 5), ticker = ''AAPL'', strategy = ''DCA'',
          units = Fin 0, invested_amount = Fin 600, portfolio_value = Fin 0\<rparr>],
       name = ''DCA'', result_ticker = ''AAPL''\<rparr>"
  unfolding simulate_dca_def negative_price_dates
  by (simp add: negative_price_def dca_frame_def MONTHLY_CONTRIBUTION_def Let_def)

lemma repeated_date_dca:
  "simulate_dca repeated_date ''AAPL'' =
     Inr \<lparr>df_equity =
       [\<lparr>Date = (2020, 1, 6), ticker = ''AAPL'', strategy = ''DCA'',
          units = Fin 30, invested_amount = Fin 300, portfolio_value = Fin 300\<rparr>,
        \<lparr>Date = (2020, 1, 6), ticker = ''AAPL'', strategy = ''DCA'',
          units = Fin 60, invested_amount = Fin 600, portfolio_value = Fin 600\<rparr>],
       name = ''DCA'', result_ticker = ''AAPL''\<rparr>"
  unfolding simulate_dca_def repeated_date_dates
  by (simp add: repeated_date_def dca_frame_def MONTHLY_CONTRIBUTION_def Let_def)

lemma repeated_date_months: "card (year_month ` Date ` set repeated_date) = 1"
  by (simp add: repeated_date_def)

lemma two_months_dca_curve: "simulate_dca two_months ''AAPL'' = Inr two_months_curve"
  by (simp only: two_months_dca two_months_curve_def)

lemma negative_price_dca_curve: "simulate_dca negative_price ''AAPL'' = Inr negative_price_curve"
  by (simp only: negative_price_dca negative_price_curve_def)

lemma repeated_date_dca_curve: "simulate_dca repeated_date ''AAPL'' = Inr repeated_date_curve"
  by (simp only: repeated_date_dca repeated_date_curve_def)

lemma two_months_months: "card (year_month ` Date ` set two_months) = 2"
  by (simp add: two_months_def year_month_def dt_year_def dt_month_def)

lemma negative_first_lump: "simulate_lump_sum negative_first ''AAPL'' = Inr negative_first_curve"
  by (simp add: simulate_lump_sum_def negative_first_def negative_first_curve_def np_div_def
      INITIAL_CAPITAL_def Let_def)

lemma zero_first_dates: "get_monthly_investment_dates zero_first = [(2020, 1, 6)]"
  by (simp add: zero_first_def selector_defs)

lemma repeated_table_series: "get_price_series ''AAPL'' repeated_table = repeated_date"
  by (simp add: get_price_series_def repeated_table_def repeated_date_def)

lemma repeated_date_lump:
  "simulate_lump_sum repeated_date ''AAPL'' =
     Inr \<lparr>df_equity = take 2 repeated_date_frame, name = ''Lump Sum'', result_ticker = ''AAPL''\<rparr>"
  by (simp add: simulate_lump_sum_def repeated_date_def repeated_date_frame_def np_div_def
      INITIAL_CAPITAL_def Let_def)

lemma repeated_table_run: "run_simulations repeated_table [''AAPL''] = Inr repeated_date_frame"
  by (simp add: run_simulations_def repeated_table_series repeated_date_lump repeated_date_dca
      Let_def)
    (simp add: repeated_date_frame_def)

lemma msft_series: "get_price_series ''MSFT'' msft_table = msft_prices"
  by (simp add: get_price_series_def msft_table_def msft_prices_def)

lemma aapl_series: "get_price_series ''AAPL'' msft_table = []"
  by (simp add: get_price_series_def msft_table_def)

lemma msft_dates: "get_monthly_investment_dates msft_prices = [(2020, 1, 6)]"
  by (simp add: msft_prices_def selector_defs)

lemma msft_lump:
  "simulate_lump_sum msft_prices ''MSFT'' =
     Inr \<lparr>df_equity = take 1 msft_frame, name = ''Lump Sum'', result_ticker = ''MSFT''\<rparr>"
  by (simp add: simulate_lump_sum_def msft_prices_def msft_frame_def np_div_def
      INITIAL_CAPITAL_def Let_def)

lemma msft_dca:
  "simulate_dca msft_prices ''MSFT'' =
     Inr \<lparr>df_equity = drop 1 msft_frame, name = ''DCA'', result_ticker = ''MSFT''\<rparr>"
  unfolding simulate_dca_def msft_dates
  by (simp add: msft_prices_def msft_frame_def dca_frame_def MONTHLY_CONTRIBUTION_def Let_def)

lemma msft_run: "run_simulations msft_table [''MSFT''] = Inr msft_frame"
  by (simp add: run_simulations_def msft_series msft_lump msft_dca Let_def)



section \<open>Properties of the simulation\<close>

text \<open>
  C1. \<open>_get_monthly_investment_dates\<close> returns no date for a series without rows; its result
  is sorted ascending; the (year, month) pairs of its dates are exactly the distinct pairs of
  the input, each once; and every date it returns is the least input date of its month whose
  day is at least \<open>INVESTMENT_DAY\<close> when there is one, and the greatest input date of its
  month otherwise.
\<close>

theorem monthly_investment_dates_selection:
  "get_monthly_investment_dates [] = [] \<and>
   sorted (get_monthly_investment_dates prices) \<and>
   map year_month (get_monthly_investment_dates prices) =
     sorted_list_of_set (year_month ` Date ` set prices) \<and>
   (\<forall>d \<in> set (get_monthly_investment_dates prices).
      d = (let M = {x \<in> Date ` set prices. year_month x = year_month d};
               C = {x \<in> M. INVESTMENT_DAY \<le> dt_day x}
           in if C \<noteq> {} then Min C else Max M))"
proof (intro conjI ballI)
  show "get_monthly_investment_dates [] = []"
    by (simp add: get_monthly_investment_dates_def group_keys_def)
  show "sorted (get_monthly_investment_dates prices)"
    by (simp add: get_monthly_investment_dates_def)
  show "map year_month (get_monthly_investment_dates prices) =
      sorted_list_of_set (year_month ` Date ` set prices)"
  proof -
    have "map year_month (get_monthly_investment_dates prices) = map (\<lambda>k. k) (group_keys prices)"
      unfolding get_monthly_investment_dates_eq map_map
      by (rule map_cong) (simp_all add: year_month_selected)
    then show ?thesis by (simp add: group_keys_sorted_list)
  qed
next
  fix d
  assume "d \<in> set (get_monthly_investment_dates prices)"
  then obtain k where k: "k \<in> set (group_keys prices)"
    and d: "d = invest_date_of_group (group_of prices k)"
    by (auto simp: get_monthly_investment_dates_eq)
  from year_month_selected [OF k] d have ym: "year_month d = k" by simp
  let ?M = "{x \<in> Date ` set prices. year_month x = year_month d}"
  let ?C = "{x \<in> ?M. INVESTMENT_DAY \<le> dt_day x}"
  have M: "Date ` set (group_of prices k) = ?M" by (simp only: Date_group_of ym)
  have "d = (if ?C \<noteq> {} then Min ?C else Max ?M)"
  proof (cases "?C = {}")
    case True
    with invest_date_of_group_fallback [OF group_of_nonempty [OF k]] M d
    show ?thesis by simp
  next
    case False
    with invest_date_of_group_target [of "group_of prices k"] M d
    show ?thesis by simp
  qed
  then show "d = (let M = {x \<in> Date ` set prices. year_month x = year_month d};
               C = {x \<in> M. INVESTMENT_DAY \<le> dt_day x}
           in if C \<noteq> {} then Min C else Max M)"
    by (simp only: Let_def)
qed

theorem monthly_investment_dates_selection_witness:
  "get_monthly_investment_dates short_month = [(2020, 1, 3), (2020, 2, 5)] \<and>
   map year_month (get_monthly_investment_dates short_month) =
     sorted_list_of_set (year_month ` Date ` set short_month) \<and>
   {x \<in> {x \<in> Date ` set short_month. year_month x = (2020, 1)}. INVESTMENT_DAY \<le> dt_day x} = {} \<and>
   (2020, 1, 3) = Max {x \<in> Date ` set short_month. year_month x = (2020, 1)} \<and>
   (2020, 2, 5) \<in> {x \<in> {x \<in> Date ` set short_month. year_month x = (2020, 2)}. INVESTMENT_DAY \<le> dt_day x} \<and>
   (2020, 2, 5) =
     Min {x \<in> {x \<in> Date ` set short_month. year_month x = (2020, 2)}. INVESTMENT_DAY \<le> dt_day x}"
proof -
  note sel = monthly_investment_dates_selection [of short_month]
  have jan: "{x \<in> {x \<in> Date ` set short_month. year_month x = (2020, 1)}.
      INVESTMENT_DAY \<le> dt_day x} = {}"
    by (auto simp: short_month_def year_month_def dt_year_def dt_month_def dt_day_def
        INVESTMENT_DAY_def)
  have feb: "(2020, 2, 5) \<in> {x \<in> {x \<in> Date ` set short_month. year_month x = (2020, 2)}.
      INVESTMENT_DAY \<le> dt_day x}"
    by (simp add: short_month_def year_month_def dt_year_def dt_month_def dt_day_def
        INVESTMENT_DAY_def)
  have ym1: "year_month (2020, 1, 3) = (2020, 1)" and ym2: "year_month (2020, 2, 5) = (2020, 2)"
    by (simp_all add: year_month_def dt_year_def dt_month_def)
  from sel have rule: "\<forall>d \<in> set (get_monthly_investment_dates short_month).
      d = (let M = {x \<in> Date ` set short_month. year_month x = year_month d};
               C = {x \<in> M. INVESTMENT_DAY \<le> dt_day x}
           in if C \<noteq> {} then Min C else Max M)"
    by blast
  have "(2020, 1, 3) \<in> set (get_monthly_investment_dates short_month)"
    by (simp add: short_month_dates)
  from rule [rule_format, OF this]
  have d1: "(2020, 1, 3) = Max {x \<in> Date ` set short_month. year_month x = (2020, 1)}"
    unfolding Let_def ym1 by (simp only: jan simp_thms if_False)
  have "(2020, 2, 5) \<in> set (get_monthly_investment_dates short_month)"
    by (simp add: short_month_dates)
  from rule [rule_format, OF this]
  have d2: "(2020, 2, 5) = Min {x \<in> {x \<in> Date ` set short_month. year_month x = (2020, 2)}.
      INVESTMENT_DAY \<le> dt_day x}"
    unfolding Let_def ym2 using feb by (metis (no_types, lifting) empty_iff)
  from sel have "map year_month (get_monthly_investment_dates short_month) =
     sorted_list_of_set (year_month ` Date ` set short_month)" by blast
  with short_month_dates jan d1 feb d2 show ?thesis by blast
qed



text \<open>
  C4. In every row either strategy returns, the portfolio value is the product of the units
  held in that row and the price of the input row it was made from.
\<close>

theorem portfolio_value_units_times_price:
  "simulate_lump_sum prices tk = Inr res \<or> simulate_dca prices tk = Inr res \<Longrightarrow>
   length (df_equity res) = length prices \<and>
   (\<forall>i < length prices.
      Date (df_equity res ! i) = Date (prices ! i) \<and>
      portfolio_value (df_equity res ! i) =
        np_mul (units (df_equity res ! i)) (adj_close (prices ! i)))"
proof (elim disjE)
  assume lump: "simulate_lump_sum prices tk = Inr res"
  then have "prices \<noteq> []" by (auto simp: simulate_lump_sum_empty)
  from simulate_lump_sum_returns [OF this, of tk] lump
  have "df_equity res = map (lump_row tk (np_div INITIAL_CAPITAL (adj_close (hd prices)))) prices"
    by auto
  then show ?thesis by (simp add: lump_row_def)
next
  assume dca: "simulate_dca prices tk = Inr res"
  let ?ds = "get_monthly_investment_dates prices"
  from dca have "\<not> dca_fails ?ds prices"
    using simulate_dca_fails [of prices tk] by auto
  from simulate_dca_returns [OF this, of tk] dca
  have "df_equity res = map (\<lambda>(r, s). dca_row tk r s) (zip prices (dca_states ?ds prices (0, 0)))"
    by auto
  then show ?thesis by (simp add: dca_row_def)
qed

theorem portfolio_value_units_times_price_witness:
  "simulate_dca two_months ''AAPL'' = Inr two_months_curve \<and>
   units (df_equity two_months_curve ! 3) = Fin (575 / 11) \<and>
   adj_close (two_months ! 3) = 13 \<and>
   portfolio_value (df_equity two_months_curve ! 3) = np_mul (Fin (575 / 11)) 13 \<and>
   simulate_lump_sum negative_first ''AAPL'' = Inr negative_first_curve \<and>
   units (df_equity negative_first_curve ! 1) = Fin (- 1000) \<and>
   adj_close (negative_first ! 1) = 20 \<and>
   portfolio_value (df_equity negative_first_curve ! 1) = np_mul (Fin (- 1000)) 20"
proof -
  note dca = portfolio_value_units_times_price
    [of two_months "''AAPL''" two_months_curve, OF disjI2, OF two_months_dca_curve]
  note lump = portfolio_value_units_times_price
    [of negative_first "''AAPL''" negative_first_curve, OF disjI1, OF negative_first_lump]
  have i3: "3 < length two_months" and p3: "adj_close (two_months ! 3) = 13"
    by (simp_all add: two_months_def)
  have u3: "units (df_equity two_months_curve ! 3) = Fin (575 / 11)"
    by (simp add: two_months_curve_def)
  from dca i3 have "portfolio_value (df_equity two_months_curve ! 3) =
      np_mul (units (df_equity two_months_curve ! 3)) (adj_close (two_months ! 3))"
    by blast
  then have v3: "portfolio_value (df_equity two_months_curve ! 3) = np_mul (Fin (575 / 11)) 13"
    by (simp only: u3 p3)
  have i1: "1 < length negative_first" and p1: "adj_close (negative_first ! 1) = 20"
    by (simp_all add: negative_first_def)
  have u1: "units (df_equity negative_first_curve ! 1) = Fin (- 1000)"
    by (simp add: negative_first_curve_def)
  from lump i1 have "portfolio_value (df_equity negative_first_curve ! 1) =
      np_mul (units (df_equity negative_first_curve ! 1)) (adj_close (negative_first ! 1))"
    by blast
  then have v1: "portfolio_value (df_equity negative_first_curve ! 1) = np_mul (Fin (- 1000)) 20"
    by (simp only: u1 p1)
  from two_months_dca_curve u3 p3 v3 negative_first_lump u1 p1 v1 show ?thesis by blast
qed

text \<open>
  C5. Along the rows \<open>simulate_dca\<close> returns, the invested amount never decreases; the
  units never decrease when every price on an investment date is positive; and on a row
  whose date is not an investment date both keep the value of the row before (zero on the
  first row).
\<close>

theorem dca_accumulators_monotone:
  "simulate_dca prices tk = Inr res \<Longrightarrow>
   sorted_wrt le64 (map invested_amount (df_equity res)) \<and>
   ((\<forall>r \<in> set prices. Date r \<in> set (get_monthly_investment_dates prices) \<longrightarrow> 0 < adj_close r)
      \<longrightarrow> sorted_wrt le64 (map units (df_equity res))) \<and>
   (\<forall>i < length prices. Date (prices ! i) \<notin> set (get_monthly_investment_dates prices) \<longrightarrow>
      units (df_equity res ! i) = (if i = 0 then Fin 0 else units (df_equity res ! (i - 1))) \<and>
      invested_amount (df_equity res ! i) =
        (if i = 0 then Fin 0 else invested_amount (df_equity res ! (i - 1))))"
proof (intro conjI impI allI)
  assume run: "simulate_dca prices tk = Inr res"
  let ?sched = "get_monthly_investment_dates prices"
  let ?sts = "dca_states ?sched prices (0, 0)"
  note len = simulate_dca_length [OF run]
  note row = simulate_dca_nth [OF run]
  show "sorted_wrt le64 (map invested_amount (df_equity res))"
    unfolding sorted_wrt_iff_nth_less
  proof (intro allI impI)
    fix i j assume ij: "i < j" "j < length (map invested_amount (df_equity res))"
    then have j: "j < length prices" and i: "i < length prices" using len by simp_all
    from ij(1) have "i \<le> j" by simp
    from dca_states_invested_mono [OF this j, of ?sched "(0, 0)"]
    show "le64 (map invested_amount (df_equity res) ! i) (map invested_amount (df_equity res) ! j)"
      using i j len by (simp add: row dca_row_def)
  qed
  {
    assume pos: "\<forall>r \<in> set prices. Date r \<in> set ?sched \<longrightarrow> 0 < adj_close r"
    show "sorted_wrt le64 (map units (df_equity res))"
      unfolding sorted_wrt_iff_nth_less
    proof (intro allI impI)
      fix i j assume ij: "i < j" "j < length (map units (df_equity res))"
      then have j: "j < length prices" and i: "i < length prices" using len by simp_all
      from ij(1) have "i \<le> j" by simp
      from dca_states_units_mono [OF this j pos, of "(0, 0)"]
      show "le64 (map units (df_equity res) ! i) (map units (df_equity res) ! j)"
        using i j len by (simp add: row dca_row_def)
    qed
  }
  {
    fix i
    assume i: "i < length prices" and out: "Date (prices ! i) \<notin> set ?sched"
    note same = dca_states_unchanged [OF i out, of "(0, 0)"]
    show "units (df_equity res ! i) = (if i = 0 then Fin 0 else units (df_equity res ! (i - 1)))"
      using same i by (cases i) (simp_all add: row dca_row_def)
    show "invested_amount (df_equity res ! i) =
        (if i = 0 then Fin 0 else invested_amount (df_equity res ! (i - 1)))"
      using same i by (cases i) (simp_all add: row dca_row_def)
  }
qed

theorem dca_accumulators_monotone_witness:
  "simulate_dca two_months ''AAPL'' = Inr two_months_curve \<and>
   sorted_wrt le64 (map invested_amount (df_equity two_months_curve)) \<and>
   sorted_wrt le64 (map units (df_equity two_months_curve)) \<and>
   Date (two_months ! 0) \<notin> set (get_monthly_investment_dates two_months) \<and>
   units (df_equity two_months_curve ! 0) = Fin 0 \<and>
   invested_amount (df_equity two_months_curve ! 0) = Fin 0"
proof -
  note mono = dca_accumulators_monotone [OF two_months_dca_curve]
  have pos: "\<forall>r \<in> set two_months.
      Date r \<in> set (get_monthly_investment_dates two_months) \<longrightarrow> 0 < adj_close r"
    by (simp add: two_months_def)
  have out: "Date (two_months ! 0) \<notin> set (get_monthly_investment_dates two_months)"
    by (simp add: two_months_dates) (simp add: two_months_def)
  have len: "0 < length two_months" by (simp add: two_months_def)
  from mono have "sorted_wrt le64 (map invested_amount (df_equity two_months_curve))" by blast
  moreover from mono pos have "sorted_wrt le64 (map units (df_equity two_months_curve))" by blast
  moreover from mono len out
  have "units (df_equity two_months_curve ! 0) = Fin 0 \<and>
      invested_amount (df_equity two_months_curve ! 0) = Fin 0"
    by (metis (no_types, lifting))
  ultimately show ?thesis using two_months_dca_curve out by blast
qed

text \<open>
  With a negative price on an investment date the units go down: from 30 to 0 here.
\<close>

theorem dca_units_decrease_counterexample:
  "simulate_dca negative_price ''AAPL'' = Inr negative_price_curve \<and>
   map units (df_equity negative_price_curve) = [Fin 30, Fin 0] \<and>
   \<not> sorted_wrt le64 (map units (df_equity negative_price_curve))"
  by (simp add: negative_price_dca_curve) (simp add: negative_price_curve_def)




text \<open>
  C6. When the dates of a non-empty series are distinct and \<open>simulate_dca\<close> returns, the
  invested amount of the last row is \<open>MONTHLY_CONTRIBUTION\<close> times the number of distinct
  (year, month) pairs of the series.
\<close>

theorem dca_final_invested:
  "distinct (map Date prices) \<Longrightarrow> prices \<noteq> [] \<Longrightarrow> simulate_dca prices tk = Inr res \<Longrightarrow>
   invested_amount (last (df_equity res)) =
     Fin (MONTHLY_CONTRIBUTION * real (card (year_month ` Date ` set prices)))"
proof -
  assume dist: "distinct (map Date prices)" and ne: "prices \<noteq> []"
    and run: "simulate_dca prices tk = Inr res"
  let ?n = "length prices - 1"
  from ne have n: "?n < length prices" by (cases prices) simp_all
  from ne have "df_equity res \<noteq> []" using simulate_dca_length [OF run] by auto
  then have "last (df_equity res) = df_equity res ! ?n"
    by (simp add: last_conv_nth simulate_dca_length [OF run])
  moreover from ne have all: "take (Suc ?n) prices = prices" by simp
  have "invested_amount (df_equity res ! ?n) =
      Fin (MONTHLY_CONTRIBUTION * real (length
        (filter (\<lambda>r. Date r \<in> set (get_monthly_investment_dates prices))
          (take (Suc ?n) prices))))"
    using simulate_dca_nth [OF run n]
      dca_states_nth [OF n, of "get_monthly_investment_dates prices" "(0, 0)"]
    by (simp add: dca_row_def)
  ultimately show ?thesis
    by (simp only: all scheduled_rows_count [OF dist])
qed

theorem dca_final_invested_witness:
  "distinct (map Date two_months) \<and> two_months \<noteq> [] \<and>
   simulate_dca two_months ''AAPL'' = Inr two_months_curve \<and>
   card (year_month ` Date ` set two_months) = 2 \<and>
   invested_amount (last (df_equity two_months_curve)) = Fin 600"
proof -
  have dist: "distinct (map Date two_months)" and ne: "two_months \<noteq> []"
    by (simp_all add: two_months_def)
  from dca_final_invested [OF dist ne two_months_dca_curve]
  have "invested_amount (last (df_equity two_months_curve)) = Fin 600"
    by (simp add: two_months_months MONTHLY_CONTRIBUTION_def)
  with dist ne two_months_dca_curve two_months_months show ?thesis by blast
qed

text \<open>
  Without distinct dates the law fails: two rows on the one investment date of a single
  month invest 600, not 300.
\<close>

theorem dca_final_invested_counterexample:
  "simulate_dca repeated_date ''AAPL'' = Inr repeated_date_curve \<and>
   invested_amount (last (df_equity repeated_date_curve)) = Fin 600 \<and>
   Fin (MONTHLY_CONTRIBUTION * real (card (year_month ` Date ` set repeated_date))) = Fin 300 \<and>
   invested_amount (last (df_equity repeated_date_curve)) \<noteq>
     Fin (MONTHLY_CONTRIBUTION * real (card (year_month ` Date ` set repeated_date)))"
  by (simp add: repeated_date_dca_curve repeated_date_months MONTHLY_CONTRIBUTION_def)
    (simp add: repeated_date_curve_def)

text \<open>
  C2. \<open>simulate_lump_sum\<close> fails exactly on a series without rows, with the \<open>KeyError\<close> of
  reading row 0. \<open>simulate_dca\<close> does not fail on a series without rows: it returns a frame
  without rows.
\<close>

theorem empty_series_behaviour:
  "((\<exists>e. simulate_lump_sum prices tk = Inl e) \<longleftrightarrow> prices = []) \<and>
   simulate_lump_sum [] tk = Inl KeyError \<and>
   simulate_dca [] tk = Inr \<lparr>df_equity = [], name = ''DCA'', result_ticker = tk\<rparr>"
proof (intro conjI)
  show "(\<exists>e. simulate_lump_sum prices tk = Inl e) \<longleftrightarrow> prices = []"
    by (cases prices) (simp_all add: simulate_lump_sum_def Let_def)
  show "simulate_lump_sum [] tk = Inl KeyError" by (rule simulate_lump_sum_empty)
  have "\<not> dca_fails (get_monthly_investment_dates []) []" by (simp add: dca_fails_def)
  from simulate_dca_returns [OF this, of tk]
  show "simulate_dca [] tk = Inr \<lparr>df_equity = [], name = ''DCA'', result_ticker = tk\<rparr>"
    by simp
qed

text \<open>On no rows \<open>simulate_dca\<close> returns a result, not an error.\<close>

theorem dca_empty_series_counterexample:
  "simulate_dca [] ''AAPL'' = Inr \<lparr>df_equity = [], name = ''DCA'', result_ticker = ''AAPL''\<rparr>"
  by (simp add: simulate_dca_def get_monthly_investment_dates_def group_keys_def dca_frame_def)

text \<open>
  C3. No price is checked for its sign. On a negative first price \<open>simulate_lump_sum\<close>
  returns, with the negative unit count \<open>INITIAL_CAPITAL / price\<close> in every row; on a zero
  first price it returns with infinite units. \<open>simulate_dca\<close> fails, with
  \<open>ZeroDivisionError\<close>, exactly when a row on an investment date has price zero, and returns
  otherwise, also when such a price is negative.
\<close>

theorem price_sign_not_checked:
  "(prices \<noteq> [] \<and> adj_close (hd prices) < 0 \<longrightarrow>
      (\<exists>res. simulate_lump_sum prices tk = Inr res \<and>
         map units (df_equity res) =
           map (\<lambda>r. Fin (INITIAL_CAPITAL / adj_close (hd prices))) prices)) \<and>
   (prices \<noteq> [] \<and> adj_close (hd prices) = 0 \<longrightarrow>
      (\<exists>res. simulate_lump_sum prices tk = Inr res \<and>
         map units (df_equity res) = map (\<lambda>r. PInf) prices)) \<and>
   (simulate_dca prices tk = Inl ZeroDivisionError \<longleftrightarrow>
      (\<exists>r \<in> set prices. Date r \<in> set (get_monthly_investment_dates prices) \<and> adj_close r = 0)) \<and>
   ((\<exists>res. simulate_dca prices tk = Inr res) \<longleftrightarrow>
      \<not> (\<exists>r \<in> set prices. Date r \<in> set (get_monthly_investment_dates prices) \<and> adj_close r = 0))"
proof (intro conjI impI)
  assume "prices \<noteq> [] \<and> adj_close (hd prices) < 0"
  then show "\<exists>res. simulate_lump_sum prices tk = Inr res \<and>
      map units (df_equity res) = map (\<lambda>r. Fin (INITIAL_CAPITAL / adj_close (hd prices))) prices"
    by (simp add: simulate_lump_sum_returns lump_row_def comp_def np_div_def)
next
  assume "prices \<noteq> [] \<and> adj_close (hd prices) = 0"
  then show "\<exists>res. simulate_lump_sum prices tk = Inr res \<and>
      map units (df_equity res) = map (\<lambda>r. PInf) prices"
    by (simp add: simulate_lump_sum_returns lump_row_def comp_def np_div_def INITIAL_CAPITAL_def)
next
  show "simulate_dca prices tk = Inl ZeroDivisionError \<longleftrightarrow>
      (\<exists>r \<in> set prices. Date r \<in> set (get_monthly_investment_dates prices) \<and> adj_close r = 0)"
    by (simp only: simulate_dca_fails_iff dca_fails_def)
  show "(\<exists>res. simulate_dca prices tk = Inr res) \<longleftrightarrow>
      \<not> (\<exists>r \<in> set prices. Date r \<in> set (get_monthly_investment_dates prices) \<and> adj_close r = 0)"
    by (simp only: simulate_dca_returns_iff dca_fails_def)
qed

theorem price_sign_not_checked_witness:
  "negative_first \<noteq> [] \<and> adj_close (hd negative_first) < 0 \<and>
   (\<exists>res. simulate_lump_sum negative_first ''AAPL'' = Inr res \<and>
      map units (df_equity res) = [Fin (- 1000), Fin (- 1000)]) \<and>
   zero_first \<noteq> [] \<and> adj_close (hd zero_first) = 0 \<and>
   (\<exists>res. simulate_lump_sum zero_first ''AAPL'' = Inr res \<and>
      map units (df_equity res) = [PInf, PInf]) \<and>
   simulate_dca zero_first ''AAPL'' = Inl ZeroDivisionError \<and>
   (\<exists>res. simulate_dca negative_price ''AAPL'' = Inr res)"
proof -
  have neg: "negative_first \<noteq> [] \<and> adj_close (hd negative_first) < 0"
    by (simp add: negative_first_def)
  have zero: "zero_first \<noteq> [] \<and> adj_close (hd zero_first) = 0"
    by (simp add: zero_first_def)
  from price_sign_not_checked [of negative_first "''AAPL''"] neg
  have a: "\<exists>res. simulate_lump_sum negative_first ''AAPL'' = Inr res \<and>
      map units (df_equity res) = [Fin (- 1000), Fin (- 1000)]"
    by (simp add: negative_first_def INITIAL_CAPITAL_def)
  from price_sign_not_checked [of zero_first "''AAPL''"] zero
  have b: "\<exists>res. simulate_lump_sum zero_first ''AAPL'' = Inr res \<and>
      map units (df_equity res) = [PInf, PInf]"
    by (simp add: zero_first_def)
  have "\<exists>r \<in> set zero_first.
      Date r \<in> set (get_monthly_investment_dates zero_first) \<and> adj_close r = 0"
    by (simp add: zero_first_dates) (simp add: zero_first_def)
  with price_sign_not_checked [of zero_first "''AAPL''"]
  have c: "simulate_dca zero_first ''AAPL'' = Inl ZeroDivisionError" by blast
  have "\<not> (\<exists>r \<in> set negative_price.
      Date r \<in> set (get_monthly_investment_dates negative_price) \<and> adj_close r = 0)"
    by (simp add: negative_price_def)
  with price_sign_not_checked [of negative_price "''AAPL''"]
  have d: "\<exists>res. simulate_dca negative_price ''AAPL'' = Inr res" by blast
  from neg a zero b c d show ?thesis by blast
qed

text \<open>A negative first price is divided by, and the lump sum buys \<open>- 1000\<close> units.\<close>

theorem lump_sum_negative_price_counterexample:
  "adj_close (hd negative_first) = - 10 \<and>
   simulate_lump_sum negative_first ''AAPL'' = Inr negative_first_curve \<and>
   map units (df_equity negative_first_curve) = [Fin (- 1000), Fin (- 1000)]"
  by (simp add: negative_first_lump) (simp add: negative_first_def negative_first_curve_def)

text \<open>
  C9. The order of the dates is not checked: on every non-empty series without a zero price
  both simulations return, one row per input row, in the order of the input rows.
\<close>

theorem date_order_not_checked:
  "prices \<noteq> [] \<Longrightarrow> \<forall>r \<in> set prices. adj_close r \<noteq> 0 \<Longrightarrow>
   \<exists>lump dca. simulate_lump_sum prices tk = Inr lump \<and> simulate_dca prices tk = Inr dca \<and>
     map Date (df_equity lump) = map Date prices \<and> map Date (df_equity dca) = map Date prices"
proof -
  assume ne: "prices \<noteq> []" and nz: "\<forall>r \<in> set prices. adj_close r \<noteq> 0"
  from nz have ok: "\<not> dca_fails (get_monthly_investment_dates prices) prices"
    by (auto simp: dca_fails_def)
  have "map Date (map (\<lambda>(r, s). dca_row tk r s)
      (zip prices (dca_states (get_monthly_investment_dates prices) prices (0, 0)))) =
      map Date prices"
    by (rule nth_equalityI) (simp_all add: dca_row_def)
  then show ?thesis
    by (simp add: simulate_lump_sum_returns [OF ne] simulate_dca_returns [OF ok]
        lump_row_def comp_def)
qed

theorem date_order_not_checked_witness:
  "decreasing_dates \<noteq> [] \<and> \<not> sorted_wrt (<) (map Date decreasing_dates) \<and>
   (\<exists>lump dca. simulate_lump_sum decreasing_dates ''AAPL'' = Inr lump \<and>
      simulate_dca decreasing_dates ''AAPL'' = Inr dca \<and>
      map Date (df_equity lump) = [(2020, 2, 5), (2020, 1, 6)] \<and>
      map Date (df_equity dca) = [(2020, 2, 5), (2020, 1, 6)])"
proof -
  have ne: "decreasing_dates \<noteq> []" and nz: "\<forall>r \<in> set decreasing_dates. adj_close r \<noteq> 0"
    and un: "\<not> sorted_wrt (<) (map Date decreasing_dates)"
    and dates: "map Date decreasing_dates = [(2020, 2, 5), (2020, 1, 6)]"
    by (simp_all add: decreasing_dates_def)
  from date_order_not_checked [OF ne nz, of "''AAPL''"] ne un show ?thesis
    by (simp only: dates) blast
qed

text \<open>
  A series that repeats a date, so that its dates are not strictly increasing, is simulated
  by \<open>run_simulations\<close> and its rows are returned.
\<close>

theorem repeated_dates_simulated_counterexample:
  "get_price_series ''AAPL'' repeated_table = repeated_date \<and>
   \<not> sorted_wrt (<) (map Date repeated_date) \<and>
   run_simulations repeated_table [''AAPL''] = Inr repeated_date_frame"
  by (simp add: repeated_table_series repeated_table_run) (simp add: repeated_date_def)

text \<open>
  C8. \<open>run_simulations\<close> stops at the first ticker one of whose simulations fails and
  fails as a whole with that error, which does not name the ticker; the tickers listed after
  it are not simulated and the frames of those before it are lost. It returns rows only when
  both simulations of every ticker return, and then the rows are the frames of the tickers, in
  order.
\<close>

theorem run_simulations_stops_at_first_failure:
  "((\<forall>s \<in> set pre. \<exists>lump dca.
       simulate_lump_sum (get_price_series s conn) s = Inr lump \<and>
       simulate_dca (get_price_series s conn) s = Inr dca) \<and>
    (simulate_lump_sum (get_price_series t conn) t = Inl e \<or>
       (\<exists>lump. simulate_lump_sum (get_price_series t conn) t = Inr lump) \<and>
       simulate_dca (get_price_series t conn) t = Inl e)
    \<longrightarrow> run_simulations conn (pre @ t # post) = Inl e) \<and>
   (run_simulations conn tickers = Inr out \<longrightarrow>
      (\<forall>s \<in> set tickers. \<exists>lump dca.
         simulate_lump_sum (get_price_series s conn) s = Inr lump \<and>
         simulate_dca (get_price_series s conn) s = Inr dca) \<and>
      out = concat (map (\<lambda>s.
         df_equity (projr (simulate_lump_sum (get_price_series s conn) s)) @
         df_equity (projr (simulate_dca (get_price_series s conn) s))) tickers))"
proof (intro conjI impI)
  assume "(\<forall>s \<in> set pre. \<exists>lump dca.
       simulate_lump_sum (get_price_series s conn) s = Inr lump \<and>
       simulate_dca (get_price_series s conn) s = Inr dca) \<and>
    (simulate_lump_sum (get_price_series t conn) t = Inl e \<or>
       (\<exists>lump. simulate_lump_sum (get_price_series t conn) t = Inr lump) \<and>
       simulate_dca (get_price_series t conn) t = Inl e)"
  then have "run_loop conn (pre @ t # post) [] = Inl e"
    by (intro run_loop_failure) blast+
  then show "run_simulations conn (pre @ t # post) = Inl e"
    by (simp add: run_simulations_def)
next
  assume run: "run_simulations conn tickers = Inr out"
  then obtain frames where loop: "run_loop conn tickers [] = Inr frames"
    and out: "out = concat frames"
    by (auto simp: run_simulations_def split: sum.splits if_splits)
  note ret = run_loop_returns [OF loop]
  from ret show "\<forall>s \<in> set tickers. \<exists>lump dca.
         simulate_lump_sum (get_price_series s conn) s = Inr lump \<and>
         simulate_dca (get_price_series s conn) s = Inr dca"
    by blast
  from ret have "frames = concat (map (\<lambda>s.
      [df_equity (projr (simulate_lump_sum (get_price_series s conn) s)),
       df_equity (projr (simulate_dca (get_price_series s conn) s))]) tickers)"
    by simp
  then show "out = concat (map (\<lambda>s.
         df_equity (projr (simulate_lump_sum (get_price_series s conn) s)) @
         df_equity (projr (simulate_dca (get_price_series s conn) s))) tickers)"
    unfolding out by (induction tickers arbitrary: frames) simp_all
qed

theorem run_simulations_stops_at_first_failure_witness:
  "simulate_lump_sum (get_price_series ''AAPL'' msft_table) ''AAPL'' = Inl KeyError \<and>
   run_simulations msft_table [''MSFT''] = Inr msft_frame \<and>
   run_simulations msft_table ([''MSFT''] @ ''AAPL'' # [''MSFT'']) = Inl KeyError"
proof -
  have fails: "simulate_lump_sum (get_price_series ''AAPL'' msft_table) ''AAPL'' = Inl KeyError"
    by (simp add: aapl_series simulate_lump_sum_empty)
  have before: "\<forall>s \<in> set [''MSFT'']. \<exists>lump dca.
       simulate_lump_sum (get_price_series s msft_table) s = Inr lump \<and>
       simulate_dca (get_price_series s msft_table) s = Inr dca"
    by (simp add: msft_series msft_lump msft_dca)
  from run_simulations_stops_at_first_failure
    [of "[''MSFT'']" msft_table "''AAPL''" KeyError "[''MSFT'']"] before fails
  have "run_simulations msft_table ([''MSFT''] @ ''AAPL'' # [''MSFT'']) = Inl KeyError"
    by blast
  with fails msft_run show ?thesis by blast
qed

text \<open>
  The ticker MSFT alone is simulated; listed after a ticker without rows it gets no result.
\<close>

theorem run_simulations_failure_counterexample:
  "run_simulations msft_table [''MSFT''] = Inr msft_frame \<and>
   run_simulations msft_table [''AAPL'', ''MSFT''] = Inl KeyError"
  by (simp add: msft_run) (simp add: run_simulations_def aapl_series simulate_lump_sum_empty)

end
